theory Spec2Isabelle
  imports Complex_Main
begin

section \<open>Errors\<close>

text \<open>
  The exceptions the modelled code paths can end in.
  \<^item> \<open>TypeError\<close>: \<open>generate_midi\<close> iterating \<open>self.chords\<close> while it is still \<open>None\<close>.
  \<^item> \<open>ParameterError\<close>: \<open>librosa.note_to_midi\<close> on a string that is not a note name.
  \<^item> \<open>ZeroDivisionError\<close>: \<open>freq_low / nyquist\<close> with a zero sample rate.
  \<^item> \<open>ValueError\<close>: whatever the filter design routine \<open>butter\<close> rejects.
  \<^item> \<open>IOError\<close>: \<open>AudioFile(input_path)\<close> on a path that holds no audio file.
\<close>

datatype error = TypeError | ParameterError | ZeroDivisionError | ValueError | IOError

section \<open>ChordRecognizer\<close>

subsection \<open>\<open>chord_to_midi_notes\<close>\<close>

text \<open>
  The dictionary literal of \<open>chord_to_midi_notes\<close>, in source order, and the lookup
  \<open>note_mapping.get(chord_name, [])\<close>.
\<close>

definition note_mapping :: "(string \<times> string list) list" where
  "note_mapping =
    [(''C:maj'', [''C4'', ''E4'', ''G4'']),
     (''C:min'', [''C4'', ''E-4'', ''G4'']),
     (''D:maj'', [''D4'', ''F#4'', ''A4'']),
     (''D:min'', [''D4'', ''F4'', ''A4'']),
     (''E:maj'', [''E4'', ''G#4'', ''B4'']),
     (''E:min'', [''E4'', ''G4'', ''B4'']),
     (''F:maj'', [''F4'', ''A4'', ''C5'']),
     (''F:min'', [''F4'', ''A-4'', ''C5'']),
     (''G:maj'', [''G4'', ''B4'', ''D5'']),
     (''G:min'', [''G4'', ''B-4'', ''D5'']),
     (''A:maj'', [''A4'', ''C#5'', ''E5'']),
     (''A:min'', [''A4'', ''C5'', ''E5'']),
     (''B:maj'', [''B4'', ''D#5'', ''F#5'']),
     (''B:min'', [''B4'', ''D5'', ''F#5''])]"

definition chord_to_midi_notes :: "string \<Rightarrow> string list" where
  "chord_to_midi_notes chord_name =
     (case map_of note_mapping chord_name of None \<Rightarrow> [] | Some ns \<Rightarrow> ns)"

subsection \<open>\<open>librosa.note_to_midi\<close>\<close>

text \<open>
  \<open>generate_midi\<close> turns every pitch name into a number with the library function
  \<open>librosa.note_to_midi\<close>. The library matches the name against
  \<^verbatim>\<open>^(?P<note>[A-Ga-g])(?P<accidental>[#b!]*)(?P<octave>[+-]?\d+)?(?P<cents>[+-]\d+)?$\<close>
  (the ASCII part of its accidental class; a \<open>string\<close> here is a list of bytes), raises
  \<open>ParameterError\<close> when the name does not match, and otherwise returns
  \<open>int(round(12 * (octave + 1) + pitch_map[note.upper()] + sum(acc_map[accidental]) + cents * 0.01))\<close>
  where a missing octave or cents group counts as 0. A hyphen is therefore the sign of
  the octave (the library's own example is \<open>note_to_midi('Bb-1') = 10\<close>); the flat signs
  are \<open>b\<close> and \<open>!\<close>.
\<close>

definition pitch_map :: "char \<Rightarrow> int option" where
  "pitch_map = map_of
    [(CHR ''C'', 0), (CHR ''D'', 2), (CHR ''E'', 4), (CHR ''F'', 5),
     (CHR ''G'', 7), (CHR ''A'', 9), (CHR ''B'', 11)]"

definition upper :: "char \<Rightarrow> char" where
  "upper c =
     (case map_of
        [(CHR ''a'', CHR ''A''), (CHR ''b'', CHR ''B''), (CHR ''c'', CHR ''C''),
         (CHR ''d'', CHR ''D''), (CHR ''e'', CHR ''E''), (CHR ''f'', CHR ''F''),
         (CHR ''g'', CHR ''G'')] c
      of None \<Rightarrow> c | Some u \<Rightarrow> u)"

definition acc_map :: "char \<Rightarrow> int option" where
  "acc_map = map_of [(CHR ''#'', 1), (CHR ''b'', - 1), (CHR ''!'', - 1)]"

definition digit :: "char \<Rightarrow> int option" where
  "digit = map_of
    [(CHR ''0'', 0), (CHR ''1'', 1), (CHR ''2'', 2), (CHR ''3'', 3), (CHR ''4'', 4),
     (CHR ''5'', 5), (CHR ''6'', 6), (CHR ''7'', 7), (CHR ''8'', 8), (CHR ''9'', 9)]"

text \<open>\<open>int(ds)\<close> for a non-empty string of decimal digits.\<close>

definition decimal :: "string \<Rightarrow> int" where
  "decimal ds = foldl (\<lambda>n c. 10 * n + (case digit c of None \<Rightarrow> 0 | Some d \<Rightarrow> d)) 0 ds"

text \<open>
  The group \<open>[+-]?\d+\<close> (with \<open>signed\<close> false) or \<open>[+-]\d+\<close> (with \<open>signed\<close> true)
  at the front of a string: the integer it denotes and the rest of the string, or
  \<open>None\<close> when the group does not match there. The digits are taken greedily, which
  is also what the backtracking matcher ends with, since what may follow a group
  never starts with a digit.
\<close>

definition signed_number :: "bool \<Rightarrow> string \<Rightarrow> (int \<times> string) option" where
  "signed_number signed s =
     (let (sign, body) =
            (case s of
               c # r \<Rightarrow> if c = CHR ''+'' then (Some 1, r)
                        else if c = CHR ''-'' then (Some (- 1), r)
                        else (None, s)
             | [] \<Rightarrow> (None, s));
          ds = takeWhile (\<lambda>c. digit c \<noteq> None) body;
          rest = dropWhile (\<lambda>c. digit c \<noteq> None) body
      in if ds = [] \<or> (signed \<and> sign = None) then None
         else Some ((case sign of None \<Rightarrow> 1 | Some sg \<Rightarrow> sg) * decimal ds, rest))"

text \<open>
  \<open>int(np.round(v / 100))\<close> for an integer number \<open>v\<close> of hundredths: rounding to the
  nearest integer, a tie going to the even neighbour. The cents term is computed in
  binary floating point by the library; a tie \<open>k + 0.5\<close> is exactly representable, so
  the arithmetic is taken as exact.
\<close>

definition round_hundredths :: "int \<Rightarrow> int" where
  "round_hundredths v =
     (let q = v div 100; r = v mod 100
      in if r < 50 then q
         else if 50 < r then q + 1
         else if even q then q else q + 1)"

definition note_to_midi :: "string \<Rightarrow> error + int" where
  "note_to_midi name =
     (case name of
        [] \<Rightarrow> Inl ParameterError
      | c # s \<Rightarrow>
          (case pitch_map (upper c) of
             None \<Rightarrow> Inl ParameterError
           | Some p \<Rightarrow>
               (let accidental = takeWhile (\<lambda>a. acc_map a \<noteq> None) s;
                    s1 = dropWhile (\<lambda>a. acc_map a \<noteq> None) s;
                    offset = sum_list (map (\<lambda>a. (case acc_map a of None \<Rightarrow> 0 | Some d \<Rightarrow> d)) accidental);
                    (octave, s2) =
                       (case signed_number False s1 of
                          None \<Rightarrow> (0, s1) | Some (n, r) \<Rightarrow> (n, r));
                    (cents, s3) =
                       (case signed_number True s2 of
                          None \<Rightarrow> (0, s2) | Some (n, r) \<Rightarrow> (n, r))
                in if s3 \<noteq> [] then Inl ParameterError
                   else Inr (round_hundredths
                          (100 * (12 * (octave + 1) + p + offset) + cents)))))"

subsection \<open>The recognizer object and \<open>generate_midi\<close>\<close>

text \<open>
  A \<open>pretty_midi.Note\<close> is a plain container of its four constructor arguments. Times
  are only copied from the chord tuple into the note, so their type is a parameter.
\<close>

record 't Note =
  velocity :: int
  pitch :: int
  start_time :: 't
  end_time :: 't

text \<open>
  \<open>midi_chords.instruments\<close> holds references to instrument objects; the only
  instrument there is is \<open>self.instrument_chords\<close> (program 0).
\<close>

datatype instrument_ref = Instrument_chords

text \<open>
  The fields of a \<open>ChordRecognizer\<close>: \<open>chords\<close> is \<open>None\<close> until \<open>recognize_chords\<close>
  has run; \<open>instrument_chords_notes\<close> is \<open>self.instrument_chords.notes\<close>;
  \<open>midi_chords_instruments\<close> is
  \<open>self.midi_chords.instruments\<close>.
\<close>

record 't ChordRecognizer =
  audio_file :: string
  chords :: "('t \<times> 't \<times> string) list option"
  instrument_chords_notes :: "'t Note list"
  midi_chords_instruments :: "instrument_ref list"

definition init :: "string \<Rightarrow> 't ChordRecognizer" where
  "init file = \<lparr>audio_file = file, chords = None, instrument_chords_notes = [],
                midi_chords_instruments = []\<rparr>"

text \<open>
  \<open>recognize_chords\<close> stores what the external recognizer returns for the audio file;
  that timeline is the argument \<open>recognized\<close>.
\<close>

definition recognize_chords ::
  "('t \<times> 't \<times> string) list \<Rightarrow> 't ChordRecognizer \<Rightarrow> 't ChordRecognizer" where
  "recognize_chords recognized self = self\<lparr>chords := Some recognized\<rparr>"

text \<open>The inner loop \<open>for note_name in chord_notes\<close>, appending to the note list.\<close>

fun append_chord_notes ::
  "'t \<Rightarrow> 't \<Rightarrow> string list \<Rightarrow> 't Note list \<Rightarrow> error + 't Note list" where
  "append_chord_notes st en [] acc = Inr acc"
| "append_chord_notes st en (note_name # rest) acc =
     (case note_to_midi note_name of
        Inl e \<Rightarrow> Inl e
      | Inr p \<Rightarrow>
          append_chord_notes st en rest
            (acc @ [\<lparr>velocity = 100, pitch = p, start_time = st, end_time = en\<rparr>]))"

text \<open>
  The outer loop \<open>for chord in self.chords\<close>. An exception ends the loops without a
  result.
\<close>

fun append_chords ::
  "('t \<times> 't \<times> string) list \<Rightarrow> 't Note list \<Rightarrow> error + 't Note list" where
  "append_chords [] acc = Inr acc"
| "append_chords ((st, en, chord_name) # rest) acc =
     (if chord_name \<noteq> ''N'' then
        (case append_chord_notes st en (chord_to_midi_notes chord_name) acc of
           Inl e \<Rightarrow> Inl e
         | Inr acc' \<Rightarrow> append_chords rest acc')
      else append_chords rest acc)"

definition generate_midi :: "'t ChordRecognizer \<Rightarrow> error + 't ChordRecognizer" where
  "generate_midi self =
     (case chords self of
        None \<Rightarrow> Inl TypeError
      | Some cs \<Rightarrow>
          (case append_chords cs (instrument_chords_notes self) of
             Inl e \<Rightarrow> Inl e
           | Inr ns \<Rightarrow>
               Inr (self\<lparr>instrument_chords_notes := ns,
                          midi_chords_instruments :=
                            midi_chords_instruments self @ [Instrument_chords]\<rparr>)))"

section \<open>AudioMastering: \<open>process_audio_with_pedalboard\<close>\<close>

text \<open>
  \<open>f.read(f.frames)\<close> returns an array of shape (channels, frames): the source itself
  passes \<open>processed_audio.shape[0]\<close> as the number of channels when it writes the
  result. An array is the list of its rows, one row per channel. Samples are taken as
  real numbers; the rounding of the machine's floating point is not modelled.
\<close>

type_synonym audio = "real list list"

subsection \<open>\<open>stereo_widen\<close>\<close>

text \<open>\<open>a[0::2]\<close>: the entries at the positions 0, 2, 4, ...\<close>

fun every_other :: "'a list \<Rightarrow> 'a list" where
  "every_other [] = []"
| "every_other [x] = [x]"
| "every_other (x # y # xs) = x # every_other xs"

text \<open>\<open>a[start::2]\<close>, a slice along the first axis.\<close>

definition slice2 :: "nat \<Rightarrow> 'a list \<Rightarrow> 'a list" where
  "slice2 start a = every_other (drop start a)"

text \<open>
  \<open>a[0::2] = vs\<close>: the entries at the positions 0, 2, 4, ... are replaced by the
  values in order. In \<open>stereo_widen\<close> the values are a slice of an array of the same
  shape, so there are exactly as many values as positions.
\<close>

fun set_every_other :: "'a list \<Rightarrow> 'a list \<Rightarrow> 'a list" where
  "set_every_other (x # y # xs) (v # vs) = v # y # set_every_other xs vs"
| "set_every_other [x] (v # vs) = [v]"
| "set_every_other xs vs = xs"

text \<open>\<open>a[start::2] = vs\<close>.\<close>

definition set_slice2 :: "nat \<Rightarrow> 'a list \<Rightarrow> 'a list \<Rightarrow> 'a list" where
  "set_slice2 start a vs = take start a @ set_every_other (drop start a) vs"

text \<open>
  \<open>np.empty_like(audio)\<close>: a fresh array of the shape of \<open>audio\<close> whose content is
  whatever the memory held, here the sample \<open>junk\<close>.
\<close>

definition empty_like :: "real \<Rightarrow> audio \<Rightarrow> audio" where
  "empty_like junk a = map (map (\<lambda>_. junk)) a"

text \<open>\<open>a * width\<close>, the array times a scalar.\<close>

definition scale :: "audio \<Rightarrow> real \<Rightarrow> audio" where
  "scale a width = map (map (\<lambda>x. x * width)) a"

definition stereo_widen :: "real \<Rightarrow> audio \<Rightarrow> real \<Rightarrow> audio" where
  "stereo_widen junk audio width =
     (let left_channel = scale (slice2 0 audio) width;
          right_channel = scale (slice2 1 audio) width;
          widened_audio = empty_like junk audio;
          widened_audio = set_slice2 0 widened_audio left_channel;
          widened_audio = set_slice2 1 widened_audio right_channel
      in widened_audio)"

subsection \<open>\<open>reduce_piano_volume\<close>\<close>

text \<open>
  The filter design \<open>butter(order, [low, high], btype='band')\<close> and the filter
  \<open>lfilter(b, a, audio)\<close> are routines of the signal library; they are the parameters
  \<open>butter\<close> and \<open>lfilter\<close>, each returning its result or the error it raises. The
  function itself checks nothing. \<open>audio - filtered_audio * gain_reduction\<close> is
  elementwise on two arrays of one shape.
\<close>

type_synonym butter_fn = "nat \<Rightarrow> real \<times> real \<Rightarrow> error + (real list \<times> real list)"
type_synonym lfilter_fn = "real list \<Rightarrow> real list \<Rightarrow> audio \<Rightarrow> error + audio"

definition reduce_piano_volume ::
  "butter_fn \<Rightarrow> lfilter_fn \<Rightarrow> audio \<Rightarrow> real \<Rightarrow> real \<Rightarrow> real \<Rightarrow> real \<Rightarrow> error + audio" where
  "reduce_piano_volume butter lfilter audio sample_rate freq_low freq_high reduction_db =
     (let nyquist = 0.5 * sample_rate
      in if nyquist = 0 then Inl ZeroDivisionError
         else
           (let low = freq_low / nyquist;
                high = freq_high / nyquist
            in case butter 1 (low, high) of
                 Inl e \<Rightarrow> Inl e
               | Inr (b, a) \<Rightarrow>
                   (case lfilter b a audio of
                      Inl e \<Rightarrow> Inl e
                    | Inr filtered_audio \<Rightarrow>
                        (let gain_reduction = 10 powr (reduction_db / 20)
                         in Inr (map2 (map2 (\<lambda>x f. x - f * gain_reduction))
                                   audio filtered_audio)))))"

subsection \<open>The board and the whole function\<close>

text \<open>
  The plugins the source constructs, with the arguments it passes:
  \<open>HighpassFilter(cutoff_frequency_hz)\<close>, \<open>Compressor(threshold_db, ratio)\<close>,
  \<open>Limiter(threshold_db)\<close>, \<open>Reverb(room_size, wet_level)\<close>, \<open>Gain(gain_db)\<close>.
\<close>

datatype plugin =
    HighpassFilter real
  | Compressor real real
  | Limiter real
  | Reverb real real
  | Gain real

definition board :: "plugin list" where
  "board =
     [HighpassFilter 100,
      Compressor (- 20) 4,
      Limiter (- 0.1),
      Reverb 0.3 0.2,
      Gain 3]"

text \<open>
  \<open>board(audio, sample_rate)\<close>: a \<open>Pedalboard\<close> sends the audio through its plugins
  in list order. What one plugin does to a signal is native signal processing of the
  effects library; it is the parameter \<open>run\<close>.
\<close>

type_synonym run_fn = "plugin \<Rightarrow> audio \<Rightarrow> real \<Rightarrow> audio"

definition board_call :: "run_fn \<Rightarrow> plugin list \<Rightarrow> audio \<Rightarrow> real \<Rightarrow> audio" where
  "board_call run plugins audio sample_rate =
     foldl (\<lambda>buffer p. run p buffer sample_rate) audio plugins"

text \<open>
  The audio files by path: the samples and the sample rate of each. The function
  reads \<open>input_path\<close>, builds the board, runs the three stages and writes
  \<open>output_path\<close>; its only arguments are the two paths.
\<close>

type_synonym files = "string \<rightharpoonup> audio \<times> real"

definition process_audio_with_pedalboard ::
  "run_fn \<Rightarrow> butter_fn \<Rightarrow> lfilter_fn \<Rightarrow> real \<Rightarrow> files \<Rightarrow> string \<Rightarrow> string \<Rightarrow> error + files" where
  "process_audio_with_pedalboard run butter lfilter junk fs input_path output_path =
     (case fs input_path of
        None \<Rightarrow> Inl IOError
      | Some (audio, sample_rate) \<Rightarrow>
          (let processed_audio = board_call run board audio sample_rate;
               processed_audio = stereo_widen junk processed_audio 1.2
           in case reduce_piano_volume butter lfilter processed_audio sample_rate
                     200 2000 (- 18) of
                Inl e \<Rightarrow> Inl e
              | Inr processed_audio \<Rightarrow>
                  Inr (fs(output_path \<mapsto> (processed_audio, sample_rate)))))"

section \<open>Properties of the chord recognizer\<close>

subsection \<open>The pitch names of the table\<close>

lemmas note_to_midi_defs =
  note_to_midi_def pitch_map_def upper_def acc_map_def signed_number_def digit_def
  decimal_def round_hundredths_def

lemma table_names_midi:
  "note_to_midi ''C4'' = Inr 60" "note_to_midi ''D4'' = Inr 62" "note_to_midi ''E4'' = Inr 64"
  "note_to_midi ''F4'' = Inr 65" "note_to_midi ''G4'' = Inr 67" "note_to_midi ''A4'' = Inr 69"
  "note_to_midi ''B4'' = Inr 71" "note_to_midi ''C5'' = Inr 72" "note_to_midi ''D5'' = Inr 74"
  "note_to_midi ''E5'' = Inr 76" "note_to_midi ''F#4'' = Inr 66" "note_to_midi ''G#4'' = Inr 68"
  "note_to_midi ''C#5'' = Inr 73" "note_to_midi ''D#5'' = Inr 75" "note_to_midi ''F#5'' = Inr 78"
  "note_to_midi ''E-4'' = Inr (- 32)" "note_to_midi ''A-4'' = Inr (- 27)"
  "note_to_midi ''B-4'' = Inr (- 25)"
  by (simp_all add: note_to_midi_defs)

lemma chord_to_midi_notes_cases:
  "chord_to_midi_notes chord_name = [] \<or>
   chord_to_midi_notes chord_name \<in> snd ` set note_mapping"
  unfolding chord_to_midi_notes_def
  by (cases "map_of note_mapping chord_name") (auto dest: map_of_SomeD intro: rev_image_eqI)

lemma chord_to_midi_notes_triad:
  "chord_to_midi_notes chord_name = [] \<or> length (chord_to_midi_notes chord_name) = 3"
  using chord_to_midi_notes_cases [of chord_name]
  by (auto simp: note_mapping_def)



subsection \<open>The two loops never fail and append one note per pitch name\<close>




lemmas chord_eval =
  generate_midi_def recognize_chords_def init_def chord_to_midi_notes_def note_mapping_def
  table_names_midi

text \<open>
  C3. \<open>chord_to_midi_notes\<close> is a total lookup: for \<open>C:maj\<close> it returns C4, E4, G4;
  for \<open>N\<close>, for \<open>unknown-label\<close> and for every other label that is not a key of the
  table it returns the empty list. The function has no error result at all.
\<close>

theorem chord_to_midi_notes_lookup:
  "chord_to_midi_notes ''C:maj'' = [''C4'', ''E4'', ''G4''] \<and>
   chord_to_midi_notes ''N'' = [] \<and>
   chord_to_midi_notes ''unknown-label'' = [] \<and>
   (\<forall>label. label \<notin> fst ` set note_mapping \<longrightarrow> chord_to_midi_notes label = [])"
proof -
  have "chord_to_midi_notes label = []" if "label \<notin> fst ` set note_mapping" for label
  proof -
    from that have "map_of note_mapping label = None" by (simp add: map_of_eq_None_iff)
    then show ?thesis by (simp add: chord_to_midi_notes_def)
  qed
  then show ?thesis
    by (simp add: chord_to_midi_notes_def note_mapping_def)
qed

theorem chord_to_midi_notes_lookup_witness:
  "''C#:dim'' \<notin> fst ` set note_mapping \<and> chord_to_midi_notes ''C#:dim'' = []"
proof -
  have h: "''C#:dim'' \<notin> fst ` set note_mapping" by (simp add: note_mapping_def)
  with chord_to_midi_notes_lookup show ?thesis by blast
qed





text \<open>
  C10, at the timeline \<open>[(0.0, 1.0, "C:min")]\<close>. The table writes the minor third of
  C minor as \<open>E-4\<close>; \<open>note_to_midi\<close> reads the hyphen as the sign of the octave,
  so the name is E in octave -4, number -32, and the recognizer emits a note whose
  pitch is below 0. The same happens to \<open>A-4\<close> (F minor) and \<open>B-4\<close> (G minor).
\<close>

theorem generate_midi_minor_chord_pitch:
  "generate_midi (recognize_chords [(0::real, 1, ''C:min'')] (init ''piano.wav'')) =
     Inr \<lparr>audio_file = ''piano.wav'',
          chords = Some [(0, 1, ''C:min'')],
          instrument_chords_notes =
            [\<lparr>velocity = 100, pitch = 60, start_time = 0, end_time = 1\<rparr>,
             \<lparr>velocity = 100, pitch = - 32, start_time = 0, end_time = 1\<rparr>,
             \<lparr>velocity = 100, pitch = 67, start_time = 0, end_time = 1\<rparr>],
          midi_chords_instruments = [Instrument_chords]\<rparr> \<and>
   note_to_midi ''E-4'' = Inr (- 32) \<and>
   note_to_midi ''A-4'' = Inr (- 27) \<and>
   note_to_midi ''B-4'' = Inr (- 25)"
  by (simp add: chord_eval)

section \<open>Properties of the mastering function\<close>

subsection \<open>\<open>stereo_widen\<close> scales every sample\<close>

lemma every_other_Cons: "every_other (x # xs) = x # every_other (drop 1 xs)"
  by (cases xs) simp_all

lemma set_every_other_Cons:
  "set_every_other (x # xs) (v # vs) = v # take 1 xs @ set_every_other (drop 1 xs) vs"
  by (cases xs) simp_all

lemma refill_slices:
  "length e = length a \<Longrightarrow>
   set_slice2 1 (set_slice2 0 e (map f (slice2 0 a))) (map f (slice2 1 a)) = map f a"
proof (induction a arbitrary: e rule: every_other.induct)
  case 1
  then show ?case by (simp add: set_slice2_def slice2_def)
next
  case (2 x)
  then show ?case by (cases e) (simp_all add: set_slice2_def slice2_def)
next
  case (3 x y xs)
  then obtain e1 e2 es where e: "e = e1 # e2 # es" "length es = length xs"
    by (cases e; cases "tl e") auto
  from 3(1) [OF e(2)] show ?case
    by (simp add: e set_slice2_def slice2_def every_other_Cons set_every_other_Cons
        del: every_other.simps set_every_other.simps)
qed

lemma stereo_widen_scale: "stereo_widen junk audio width = scale audio width"
proof -
  have "length (empty_like junk audio) = length audio" by (simp add: empty_like_def)
  from refill_slices [OF this, of "map (\<lambda>x. x * width)"] show ?thesis
    by (simp add: stereo_widen_def scale_def)
qed

text \<open>
  C5. Widening by \<open>w1\<close> and then by \<open>w2\<close> is widening by \<open>w1 * w2\<close>, and widening by
  1 is the identity, for every buffer (of two channels or any other number), with the
  samples taken as real numbers.
\<close>

theorem stereo_widen_compose:
  "stereo_widen junk2 (stereo_widen junk1 x w1) w2 = stereo_widen junk x (w1 * w2) \<and>
   stereo_widen junk x 1 = x"
  by (simp add: stereo_widen_scale scale_def mult.assoc)

text \<open>
  C6, as the code has it: \<open>stereo_widen\<close> checks no channel count and has no failing
  path. On a buffer of one channel it returns the scaled buffer.
\<close>

theorem stereo_widen_mono_returns:
  "length [[1, 2, 3 :: real]] \<noteq> 2 \<and> stereo_widen 0 [[1, 2, 3]] 2 = [[2, 4, 6]]"
  by (simp add: stereo_widen_scale scale_def)

text \<open>
  C6, amended. For every buffer whose channel count is not 2, \<open>stereo_widen\<close> returns
  the buffer of the same shape with every sample multiplied by the width.
\<close>

theorem stereo_widen_any_channel_count:
  "length audio \<noteq> 2 \<Longrightarrow>
   stereo_widen junk audio width = map (map (\<lambda>x. x * width)) audio"
  by (simp add: stereo_widen_scale scale_def)

theorem stereo_widen_any_channel_count_witness:
  "length [[1, 2], [3, 4], [5, 6 :: real]] \<noteq> 2 \<and>
   stereo_widen 9 [[1, 2], [3, 4], [5, 6]] 3 = [[3, 6], [9, 12], [15, 18]]"
proof -
  have h: "length [[1, 2], [3, 4], [5, 6 :: real]] \<noteq> 2" by simp
  from h stereo_widen_any_channel_count [OF h, of 9 3] show ?thesis by simp
qed

subsection \<open>The order of the stages\<close>

text \<open>
  C4, as the code has it: the board is a literal inside the function, whose only
  arguments are the two paths, so a caller has no way to supply another chain. Here
  every plugin appends its own digit to the sample (1 for HighpassFilter up to 5 for
  Gain) and the band filter lets nothing through. The sample 0 of the input comes out
  as 12345 * 1.2 = 14814: the five plugins, the widening and the band stage all ran;
  the sample 0 that an empty chain would write cannot be had.
\<close>

theorem process_audio_chain_not_replaceable:
  "(case process_audio_with_pedalboard
           (\<lambda>p buffer sample_rate.
              map (map (\<lambda>x. 10 * x +
                (case p of HighpassFilter c \<Rightarrow> 1 | Compressor t r \<Rightarrow> 2 | Limiter t \<Rightarrow> 3
                 | Reverb r w \<Rightarrow> 4 | Gain g \<Rightarrow> 5))) buffer)
           (\<lambda>order band. Inr ([1], [1]))
           (\<lambda>b a x. Inr (map (map (\<lambda>s. 0)) x))
           0 [''master.wav'' \<mapsto> ([[0]], 44100)] ''master.wav'' ''final.wav'' of
      Inl e \<Rightarrow> None
    | Inr fs' \<Rightarrow> fs' ''final.wav'') = Some ([[14814]], 44100) \<and>
   Some ([[14814 :: real]], 44100 :: real) \<noteq> Some ([[0]], 44100)"
  by (simp add: process_audio_with_pedalboard_def board_call_def board_def
      reduce_piano_volume_def stereo_widen_scale scale_def Let_def)

text \<open>
  C4, amended. Whatever the plugins and the filter routines compute, the function
  applies HighpassFilter(100), Compressor(-20, 4), Limiter(-0.1), Reverb(0.3, 0.2),
  Gain(3), then \<open>stereo_widen\<close> with width 1.2, then \<open>reduce_piano_volume\<close> on the
  band from 200 to 2000 Hz with -18 dB, in exactly this order, each stage on the
  output of the one before; an error of the last stage is the function's error, and
  otherwise the result is written to \<open>output_path\<close> with the input's sample rate.
\<close>

theorem process_audio_fixed_order:
  "fs input_path = Some (audio, sample_rate) \<Longrightarrow>
   process_audio_with_pedalboard run butter lfilter junk fs input_path output_path =
     (case reduce_piano_volume butter lfilter
             (stereo_widen junk
                (run (Gain 3)
                  (run (Reverb 0.3 0.2)
                    (run (Limiter (- 0.1))
                      (run (Compressor (- 20) 4)
                        (run (HighpassFilter 100) audio sample_rate)
                        sample_rate)
                      sample_rate)
                    sample_rate)
                  sample_rate)
                1.2)
             sample_rate 200 2000 (- 18) of
        Inl e \<Rightarrow> Inl e
      | Inr out \<Rightarrow> Inr (fs(output_path \<mapsto> (out, sample_rate))))"
  by (simp add: process_audio_with_pedalboard_def board_call_def board_def)

theorem process_audio_fixed_order_witness:
  "[''master.wav'' \<mapsto> ([[1, 2], [3, 4]], 44100)] ''master.wav'' = Some ([[1, 2], [3, 4]], 44100) \<and>
   (case process_audio_with_pedalboard
           (\<lambda>p buffer sample_rate. buffer)
           (\<lambda>order band. Inr ([1], [1]))
           (\<lambda>b a x. Inr x)
           0 [''master.wav'' \<mapsto> ([[1, 2], [3, 4]], 44100)] ''master.wav'' ''final.wav'' of
      Inl e \<Rightarrow> None
    | Inr fs' \<Rightarrow> fs' ''final.wav'') =
   Some ([[6 / 5 - 6 / 5 * 10 powr (- 18 / 20), 12 / 5 - 12 / 5 * 10 powr (- 18 / 20)],
          [18 / 5 - 18 / 5 * 10 powr (- 18 / 20), 24 / 5 - 24 / 5 * 10 powr (- 18 / 20)]], 44100)"
proof -
  have h: "[''master.wav'' \<mapsto> ([[1, 2], [3, 4 :: real]], 44100 :: real)] ''master.wav'' =
      Some ([[1, 2], [3, 4]], 44100)"
    by simp
  from h process_audio_fixed_order
      [where fs = "[''master.wav'' \<mapsto> ([[1, 2], [3, 4]], 44100)]"
         and input_path = "''master.wav''" and audio = "[[1, 2], [3, 4]]"
         and sample_rate = 44100 and run = "\<lambda>p buffer sample_rate. buffer"
         and butter = "\<lambda>order band. Inr ([1], [1])" and lfilter = "\<lambda>b a x. Inr x"
         and junk = 0 and output_path = "''final.wav''"]
  show ?thesis
    by (simp add: reduce_piano_volume_def stereo_widen_scale scale_def Let_def)
qed

end
